theory Spec2Isabelle
  imports Complex_Main
begin

section \<open>The AI agent bubble (ai-agent.ts): model configuration\<close>

text \<open>
  \<^verbatim>\<open>BackupModelConfigSchema\<close>: the backup model and three optional overrides. The type has
  no \<^verbatim>\<open>backupModel\<close> field of its own.
\<close>

record BackupModelConfig =
  b_model :: string
  b_temperature :: "real option"
  b_maxTokens :: "real option"
  b_maxRetries :: "nat option"

text \<open>
  \<^verbatim>\<open>AIAgentParamsParsed['model']\<close>, the parsed \<^verbatim>\<open>ModelConfigSchema\<close>: the defaults are
  filled in, \<^verbatim>\<open>provider\<close> and \<^verbatim>\<open>backupModel\<close> stay optional.
\<close>

record ModelConfig =
  model :: string
  temperature :: real
  maxTokens :: real
  maxRetries :: nat
  provider :: "string list option"
  jsonMode :: bool
  backupModel :: "BackupModelConfig option"

text \<open>
  \<^verbatim>\<open>buildModelConfig(primaryConfig, backupConfig?)\<close>. The operator \<^verbatim>\<open>??\<close> takes the
  right side only when the left side is undefined, so a backup temperature of 0 is kept.
\<close>

definition buildModelConfig :: "ModelConfig \<Rightarrow> BackupModelConfig option \<Rightarrow> ModelConfig" where
  "buildModelConfig primaryConfig backupConfig =
     (case backupConfig of
        None \<Rightarrow> primaryConfig
      | Some b \<Rightarrow>
          \<lparr> model = b_model b,
            temperature = (case b_temperature b of Some t \<Rightarrow> t | None \<Rightarrow> temperature primaryConfig),
            maxTokens = (case b_maxTokens b of Some t \<Rightarrow> t | None \<Rightarrow> maxTokens primaryConfig),
            maxRetries = (case b_maxRetries b of Some r \<Rightarrow> r | None \<Rightarrow> maxRetries primaryConfig),
            provider = provider primaryConfig,
            jsonMode = jsonMode primaryConfig,
            backupModel = None \<rparr>)"

section \<open>JavaScript values, thrown values and strings\<close>

text \<open>
  The values tools take and return, as far as JSON carries them: a number is a finite
  number, an object is the list of its keys and values in order. A thrown value is an
  \<^verbatim>\<open>Error\<close> with its message, a \<^verbatim>\<open>TypeError\<close> with its message (the retry library treats
  it apart), or anything else with its \<^verbatim>\<open>String(...)\<close> form.
\<close>

datatype jsval =
    JNull
  | JBool bool
  | JNum real
  | JStr string
  | JArr "jsval list"
  | JObj "(string \<times> jsval) list"

datatype thrown = Error string | TypeError string | Thrown string

definition errorMessageOf :: "thrown \<Rightarrow> string" where
  "errorMessageOf e =
     (case e of Error m \<Rightarrow> m | TypeError m \<Rightarrow> m | Thrown v \<Rightarrow> ''Unknown error'')"

definition stringOfThrown :: "thrown \<Rightarrow> string" where
  "stringOfThrown e = (case e of Error m \<Rightarrow> m | TypeError m \<Rightarrow> m | Thrown v \<Rightarrow> v)"

fun startsWith :: "string \<Rightarrow> string \<Rightarrow> bool" where
  "startsWith s [] = True"
| "startsWith [] (p # ps) = False"
| "startsWith (c # cs) (p # ps) = (c = p \<and> startsWith cs ps)"

fun includes_str :: "string \<Rightarrow> string \<Rightarrow> bool" where
  "includes_str [] needle = (needle = [])"
| "includes_str (c # cs) needle = (startsWith (c # cs) needle \<or> includes_str cs needle)"

definition toUpperCase :: "string \<Rightarrow> string" where
  "toUpperCase s =
     map (\<lambda>c. case map_of (zip ''abcdefghijklmnopqrstuvwxyz'' ''ABCDEFGHIJKLMNOPQRSTUVWXYZ'') c of
                 Some u \<Rightarrow> u | None \<Rightarrow> c) s"

definition digit_char :: "nat \<Rightarrow> char" where
  "digit_char d = (if d < 10 then ''0123456789'' ! d else CHR ''9'')"

fun string_of_nat :: "nat \<Rightarrow> string" where
  "string_of_nat n =
     (if n < 10 then [digit_char n] else string_of_nat (n div 10) @ [digit_char (n mod 10)])"

declare string_of_nat.simps [simp del]

section \<open>Messages and the message-state reducer\<close>

text \<open>
  A message of the history: its id, its type, its content, the tool calls of an AI
  message, the call id of a tool-result message, and \<^verbatim>\<open>additional_kwargs.finishReason\<close>.
  The usage metadata, which the agent only logs, is left out.
\<close>

datatype MessageId = Given string | Generated nat

datatype ContentPart = TextPart string | ImageUrlPart string

datatype MessageContent = Text string | Parts "ContentPart list"

datatype MessageType = TypeHuman | TypeAI | TypeTool

record ToolCall =
  tc_id :: string
  tc_name :: string
  tc_args :: jsval

record Message =
  msg_id :: "MessageId option"
  msg_type :: MessageType
  content :: MessageContent
  tool_calls :: "ToolCall list"
  tool_call_id :: string
  finishReason :: "string option"

definition HumanMessage :: "MessageContent \<Rightarrow> Message" where
  "HumanMessage c =
     \<lparr> msg_id = None, msg_type = TypeHuman, content = c, tool_calls = [],
       tool_call_id = [], finishReason = None \<rparr>"

definition AIMessage :: "MessageContent \<Rightarrow> string option \<Rightarrow> Message" where
  "AIMessage c reason =
     \<lparr> msg_id = None, msg_type = TypeAI, content = c, tool_calls = [],
       tool_call_id = [], finishReason = reason \<rparr>"

definition ToolMessage :: "string \<Rightarrow> string \<Rightarrow> Message" where
  "ToolMessage c call_id =
     \<lparr> msg_id = None, msg_type = TypeTool, content = Text c, tool_calls = [],
       tool_call_id = call_id, finishReason = None \<rparr>"

text \<open>
  The reducer of \<^verbatim>\<open>MessagesAnnotation\<close> (a library function): a message without an id gets
  a fresh one; a message of the update whose id is in the history replaces the message
  with that id, any other is appended. Removal messages are not modelled.
\<close>

fun assignIds :: "nat \<Rightarrow> Message list \<Rightarrow> Message list \<times> nat" where
  "assignIds k [] = ([], k)"
| "assignIds k (m # ms) =
     (case msg_id m of
        Some i \<Rightarrow> (case assignIds k ms of (ms', k') \<Rightarrow> (m # ms', k'))
      | None \<Rightarrow>
          (case assignIds (Suc k) ms of
             (ms', k') \<Rightarrow> (m\<lparr>msg_id := Some (Generated k)\<rparr> # ms', k')))"

fun indexOfId :: "MessageId option \<Rightarrow> Message list \<Rightarrow> nat option" where
  "indexOfId i [] = None"
| "indexOfId i (m # ms) =
     (case indexOfId i ms of
        Some k \<Rightarrow> Some (Suc k)
      | None \<Rightarrow> if msg_id m = i then Some 0 else None)"

fun mergeMessages :: "Message list \<Rightarrow> Message list \<Rightarrow> Message list" where
  "mergeMessages merged [] = merged"
| "mergeMessages merged (m # ms) =
     (case indexOfId (msg_id m) merged of
        Some k \<Rightarrow> mergeMessages (merged[k := m]) ms
      | None \<Rightarrow> mergeMessages (merged @ [m]) ms)"

section \<open>Tools, hooks, streaming events and the agent's state\<close>

text \<open>
  A tool is its name and its \<^verbatim>\<open>invoke\<close>, which returns or throws. A hook returns its
  result, returns nothing, or throws. Of the streaming events, those the agent itself
  emits are modelled: \<^verbatim>\<open>tool_start\<close> (tool, input, callId), \<^verbatim>\<open>tool_complete\<close> (callId, input,
  tool, output; the measured duration is left out) and \<^verbatim>\<open>error\<close> (error, recoverable).
  The streaming callback is modelled by the list of events it was given.

  The agent's state holds the instance field \<^verbatim>\<open>shouldStopAfterTools\<close> and what the run has
  done to its surroundings: the events emitted, the number of model invocations made,
  the number of random draws, the delays slept, the next fresh message id and the
  configs \<^verbatim>\<open>executeWithModel\<close> was entered with.
\<close>

record Tool =
  tool_name :: string
  invoke :: "jsval \<Rightarrow> thrown + jsval"

record ToolHookContext =
  toolName :: string
  toolInput :: jsval
  toolOutput :: "jsval option"
  messages :: "Message list"

record BeforeResult =
  before_messages :: "Message list option"
  before_toolInput :: jsval

record AfterResult =
  after_messages :: "Message list option"
  shouldStop :: "bool option"

type_synonym ToolHookBefore = "ToolHookContext \<Rightarrow> thrown + BeforeResult option"

type_synonym ToolHookAfter = "ToolHookContext \<Rightarrow> thrown + AfterResult option"

datatype StreamingEvent =
    tool_start string jsval string
  | tool_complete string jsval string jsval
  | error_event string bool

datatype CredentialType =
    OPENAI_CRED | GOOGLE_GEMINI_CRED | ANTHROPIC_CRED | OPENROUTER_CRED | OTHER_CRED string

datatype ImageInput =
    Base64Image string string "string option"
  | UrlImage string "string option"

record ToolConfig =
  cfg_name :: string
  cfg_credentials :: "(CredentialType \<rightharpoonup> string) option"
  cfg_config :: "jsval option"

record CustomTool =
  custom_name :: string
  custom_func :: "jsval \<Rightarrow> thrown + jsval"

record Params =
  message :: string
  images :: "ImageInput list"
  systemPrompt :: string
  params_model :: ModelConfig
  tools :: "ToolConfig list"
  customTools :: "CustomTool list"
  maxIterations :: nat
  credentials :: "(CredentialType \<rightharpoonup> string) option"
  beforeToolCall :: "ToolHookBefore option"
  afterToolCall :: "ToolHookAfter option"
  streamingCallback :: bool

record AgentState =
  shouldStopAfterTools :: bool
  events :: "StreamingEvent list"
  llmCalls :: nat
  randomDraws :: nat
  sleeps :: "real list"
  nextId :: nat
  modelRuns :: "ModelConfig list"

definition emit :: "Params \<Rightarrow> StreamingEvent \<Rightarrow> AgentState \<Rightarrow> AgentState" where
  "emit p ev s = (if streamingCallback p then s\<lparr>events := events s @ [ev]\<rparr> else s)"

definition messagesStateReducer ::
  "AgentState \<Rightarrow> Message list \<Rightarrow> Message list \<Rightarrow> AgentState \<times> Message list" where
  "messagesStateReducer s left right =
     (case assignIds (nextId s) left of
        (l, k1) \<Rightarrow>
          (case assignIds k1 right of
             (r, k2) \<Rightarrow> (s\<lparr>nextId := k2\<rparr>, mergeMessages l r)))"

section \<open>The outside world\<close>

text \<open>
  What the agent calls but does not define: the model provider (its answer may depend on
  the config, on how many invocations came before and on the messages sent),
  \<^verbatim>\<open>Math.random\<close> (the k-th draw), \<^verbatim>\<open>fetch\<close>, the bubble factory, the constructor of
  \<^verbatim>\<open>DynamicStructuredTool\<close>, the table \<^verbatim>\<open>BUBBLE_CREDENTIAL_OPTIONS\<close>,
  \<^verbatim>\<open>formatFinalResponse\<close> of utils/agent-formatter, the platform's \<^verbatim>\<open>JSON.stringify\<close> and
  \<^verbatim>\<open>JSON.parse\<close> (\<^verbatim>\<open>None\<close> when it throws its syntax error), and the retry library's
  test whether the message of a \<^verbatim>\<open>TypeError\<close> is that of a network failure.
\<close>

record LLMResponse =
  response_id :: "string option"
  response_content :: MessageContent
  response_tool_calls :: "ToolCall list"
  response_finishReason :: "string option"

record FetchResponse =
  ok :: bool
  status :: nat
  statusText :: string
  arrayBuffer :: "thrown + string"
  contentType :: "string option"

record ToolBubbleClass =
  bubble_type :: "string option"
  toolAgent :: "((CredentialType \<rightharpoonup> string) \<Rightarrow> jsval \<Rightarrow> thrown + Tool) option"

record FormattedResult =
  formatted_response :: string
  formatted_error :: "string option"

record World =
  llm_invoke :: "ModelConfig \<Rightarrow> nat \<Rightarrow> Message list \<Rightarrow> thrown + LLMResponse"
  math_random :: "nat \<Rightarrow> real"
  fetch :: "string \<Rightarrow> thrown + FetchResponse"
  registerDefaults :: "thrown option"
  factory_get :: "string \<Rightarrow> thrown + ToolBubbleClass option"
  credential_options :: "string \<Rightarrow> CredentialType list"
  newDynamicStructuredTool :: "string \<Rightarrow> (jsval \<Rightarrow> thrown + jsval) \<Rightarrow> thrown + Tool"
  formatFinalResponse :: "MessageContent \<Rightarrow> string \<Rightarrow> bool \<Rightarrow> FormattedResult"
  json_stringify :: "jsval \<Rightarrow> string"
  json_parse :: "string \<Rightarrow> jsval option"
  isNetworkError :: "string \<Rightarrow> bool"

section \<open>The tool node: executeToolsWithHooks\<close>

text \<open>
  The loop's variables: the agent instance (its stop flag and the events it has emitted),
  the AI message whose tool calls are being executed (a hook's rewritten arguments are
  assigned to \<^verbatim>\<open>toolCall.args\<close>, so the message itself changes), \<^verbatim>\<open>toolMessages\<close> and
  \<^verbatim>\<open>currentMessages\<close>.
\<close>

record ToolLoop =
  this :: AgentState
  lastMessage :: Message
  toolMessages :: "Message list"
  currentMessages :: "Message list"

definition callBeforeHook :: "Params \<Rightarrow> ToolHookContext \<Rightarrow> thrown + BeforeResult option" where
  "callBeforeHook p ctx = (case beforeToolCall p of None \<Rightarrow> Inr None | Some hook \<Rightarrow> hook ctx)"

definition callAfterHook :: "Params \<Rightarrow> ToolHookContext \<Rightarrow> thrown + AfterResult option" where
  "callAfterHook p ctx = (case afterToolCall p of None \<Rightarrow> Inr None | Some hook \<Rightarrow> hook ctx)"

text \<open>
  The assignment \<^verbatim>\<open>toolCall.args = ...\<close> changes the call object inside the AI message;
  every list that holds that message shows the change. Object identity is rendered by
  equality: the elements equal to the message before the assignment are replaced, also a
  copy with the same fields that a hook may have put in the list.
\<close>

definition writeBack :: "Message \<Rightarrow> Message \<Rightarrow> Message list \<Rightarrow> Message list" where
  "writeBack old new ms = map (\<lambda>m. if m = old then new else m) ms"

definition applyBeforeResult :: "nat \<Rightarrow> BeforeResult option \<Rightarrow> ToolLoop \<Rightarrow> ToolLoop" where
  "applyBeforeResult i hookResult_before l =
     (case hookResult_before of
        None \<Rightarrow> l
      | Some r \<Rightarrow>
          (let cur = (case before_messages r of Some ms \<Rightarrow> ms | None \<Rightarrow> currentMessages l);
               old = lastMessage l;
               calls = tool_calls old;
               new = old\<lparr>tool_calls := calls[i := (calls ! i)\<lparr>tc_args := before_toolInput r\<rparr>]\<rparr>
           in l\<lparr>lastMessage := new, currentMessages := writeBack old new cur\<rparr>))"

definition applyAfterResult :: "AfterResult option \<Rightarrow> ToolLoop \<Rightarrow> ToolLoop" where
  "applyAfterResult hookResult_after l =
     (case hookResult_after of
        None \<Rightarrow> l
      | Some r \<Rightarrow>
          (let l1 = (case after_messages r of
                       Some ms \<Rightarrow> l\<lparr>currentMessages := ms\<rparr>
                     | None \<Rightarrow> l)
           in if shouldStop r = Some True
              then l1\<lparr>this := (this l1)\<lparr>shouldStopAfterTools := True\<rparr>\<rparr>
              else l1))"

definition catchToolError :: "string \<Rightarrow> thrown \<Rightarrow> ToolLoop \<Rightarrow> ToolLoop" where
  "catchToolError call_id e l =
     (let errorMessage = ToolMessage (''Error: '' @ errorMessageOf e) call_id
      in l\<lparr>toolMessages := toolMessages l @ [errorMessage],
            currentMessages := currentMessages l @ [errorMessage]\<rparr>)"

definition toolMessageContent :: "World \<Rightarrow> jsval \<Rightarrow> string" where
  "toolMessageContent w out =
     (case out of JStr s \<Rightarrow> s | _ \<Rightarrow> json_stringify w out)"

text \<open>One iteration of \<^verbatim>\<open>for (const toolCall of toolCalls)\<close>, for the call at index i.\<close>

definition executeToolCall ::
  "World \<Rightarrow> Params \<Rightarrow> Tool list \<Rightarrow> ToolLoop \<Rightarrow> nat \<times> ToolCall \<Rightarrow> ToolLoop" where
  "executeToolCall w p agentTools l ic =
     (case ic of (i, toolCall) \<Rightarrow>
       (case find (\<lambda>t. tool_name t = tc_name toolCall) agentTools of
          None \<Rightarrow>
            l\<lparr>toolMessages := toolMessages l @
                 [ToolMessage (''Error: Tool '' @ tc_name toolCall @ '' not found'') (tc_id toolCall)]\<rparr>
        | Some found \<Rightarrow>
            (case callBeforeHook p
                    \<lparr> toolName = tc_name toolCall, toolInput = tc_args toolCall,
                      toolOutput = None, messages = currentMessages l \<rparr> of
               Inl e \<Rightarrow> catchToolError (tc_id toolCall) e l
             | Inr hookResult_before \<Rightarrow>
                 (let l1 = l\<lparr>this := emit p (tool_start (tc_name toolCall) (tc_args toolCall)
                                            (tc_id toolCall)) (this l)\<rparr>;
                      l2 = applyBeforeResult i hookResult_before l1;
                      args = (case hookResult_before of
                                None \<Rightarrow> tc_args toolCall
                              | Some r \<Rightarrow> before_toolInput r)
                  in case invoke found args of
                       Inl e \<Rightarrow> catchToolError (tc_id toolCall) e l2
                     | Inr out \<Rightarrow>
                         (let toolMessage = ToolMessage (toolMessageContent w out) (tc_id toolCall);
                              l3 = l2\<lparr>toolMessages := toolMessages l2 @ [toolMessage],
                                      currentMessages := currentMessages l2 @ [toolMessage]\<rparr>
                          in case callAfterHook p
                                    \<lparr> toolName = tc_name toolCall, toolInput = args,
                                      toolOutput = Some out, messages = currentMessages l3 \<rparr> of
                               Inl e \<Rightarrow> catchToolError (tc_id toolCall) e l3
                             | Inr hookResult_after \<Rightarrow>
                                 (let l4 = applyAfterResult hookResult_after l3
                                  in l4\<lparr>this := emit p (tool_complete (tc_id toolCall) args
                                                       (tc_name toolCall) out) (this l4)\<rparr>))))))"

text \<open>
  The node. It reads the last message of the state; on an empty history
  \<^verbatim>\<open>messages[messages.length - 1]\<close> is undefined and reading \<^verbatim>\<open>tool_calls\<close> of it throws.
  It gives back the instance, the AI message as the loop left it, and the update
  \<^verbatim>\<open>{ messages: ... }\<close>.
\<close>

definition executeToolsWithHooks ::
  "World \<Rightarrow> Params \<Rightarrow> AgentState \<Rightarrow> Message list \<Rightarrow> Tool list
     \<Rightarrow> thrown + (AgentState \<times> Message \<times> Message list)" where
  "executeToolsWithHooks w p s state_messages agentTools =
     (if state_messages = []
      then Inl (TypeError ''Cannot read properties of undefined (reading 'tool_calls')'')
      else
        (let toolCalls = tool_calls (last state_messages);
             l0 = \<lparr> this = s\<lparr>shouldStopAfterTools := False\<rparr>,
                    lastMessage = last state_messages,
                    toolMessages = [],
                    currentMessages = state_messages \<rparr>;
             l = foldl (executeToolCall w p agentTools) l0 (enumerate 0 toolCalls)
         in Inr (this l, lastMessage l,
                 if length (currentMessages l) \<noteq> length state_messages + length (toolMessages l)
                 then currentMessages l
                 else toolMessages l)))"

section \<open>The agent node: retry with exponential backoff\<close>

text \<open>
  \<^verbatim>\<open>exponentialBackoff(attemptNumber)\<close>: the delay handed to \<^verbatim>\<open>setTimeout\<close>, as a function
  of the attempt number and of the value \<^verbatim>\<open>Math.random()\<close> returned.
\<close>

definition exponentialBackoff :: "nat \<Rightarrow> real \<Rightarrow> real" where
  "exponentialBackoff attemptNumber rnd =
     (let baseDelay = 1000;
          maxDelay = 32000;
          delay = min (baseDelay * 2 powi (int attemptNumber - 1)) maxDelay;
          jitter = delay * 0.25 * (rnd - 0.5);
          finalDelay = delay + jitter
      in finalDelay)"

definition onFailedAttempt ::
  "World \<Rightarrow> Params \<Rightarrow> thrown \<Rightarrow> nat \<Rightarrow> nat \<Rightarrow> AgentState \<Rightarrow> AgentState" where
  "onFailedAttempt w p e attemptNumber retriesLeft s =
     (let s1 = emit p
                 (error_event
                    (''Retry attempt '' @ string_of_nat attemptNumber @ ''/'' @
                       string_of_nat (maxRetries (params_model p)) @ '': '' @
                       (case e of Error m \<Rightarrow> m | TypeError m \<Rightarrow> m | Thrown v \<Rightarrow> ''undefined''))
                    (0 < retriesLeft)) s
      in if 0 < retriesLeft
         then s1\<lparr>sleeps := sleeps s1 @ [exponentialBackoff attemptNumber (math_random w (randomDraws s1))],
                 randomDraws := Suc (randomDraws s1)\<rparr>
         else s1)"

text \<open>
  \<^verbatim>\<open>llm.withRetry({ stopAfterAttempt, onFailedAttempt })\<close>, which hands the invocation to
  the retry library. A thrown value that is not an \<^verbatim>\<open>Error\<close> ends the attempts with the
  library's own \<^verbatim>\<open>TypeError\<close>; a \<^verbatim>\<open>TypeError\<close> that is not a network failure ends them
  with itself; neither reaches \<^verbatim>\<open>onFailedAttempt\<close>. Any other failure runs
  \<^verbatim>\<open>onFailedAttempt\<close> and, while retries are left, the model is invoked again; the last
  failure is thrown. The library's own waits between attempts are not recorded.
\<close>

definition stopsRetry :: "World \<Rightarrow> thrown \<Rightarrow> thrown option" where
  "stopsRetry w e =
     (case e of
        Thrown v \<Rightarrow>
          Some (TypeError (''Non-error was thrown: '' @ [CHR 0x22] @ v @ [CHR 0x22] @
                             ''. You should only throw errors.''))
      | TypeError m \<Rightarrow> if isNetworkError w m then None else Some (TypeError m)
      | Error m \<Rightarrow> None)"

fun invokeWithRetry ::
  "World \<Rightarrow> Params \<Rightarrow> ModelConfig \<Rightarrow> Message list \<Rightarrow> nat \<Rightarrow> nat \<Rightarrow> AgentState
     \<Rightarrow> AgentState \<times> (thrown + LLMResponse)" where
  "invokeWithRetry w p cfg allMessages attemptNumber 0 s =
     (let s1 = s\<lparr>llmCalls := Suc (llmCalls s)\<rparr>
      in case llm_invoke w cfg (llmCalls s) allMessages of
           Inr r \<Rightarrow> (s1, Inr r)
         | Inl e \<Rightarrow>
             (case stopsRetry w e of
                Some stopped \<Rightarrow> (s1, Inl stopped)
              | None \<Rightarrow> (onFailedAttempt w p e attemptNumber 0 s1, Inl e)))"
| "invokeWithRetry w p cfg allMessages attemptNumber (Suc retriesLeft) s =
     (let s1 = s\<lparr>llmCalls := Suc (llmCalls s)\<rparr>
      in case llm_invoke w cfg (llmCalls s) allMessages of
           Inr r \<Rightarrow> (s1, Inr r)
         | Inl e \<Rightarrow>
             (case stopsRetry w e of
                Some stopped \<Rightarrow> (s1, Inl stopped)
              | None \<Rightarrow>
                  invokeWithRetry w p cfg allMessages (Suc attemptNumber) retriesLeft
                    (onFailedAttempt w p e attemptNumber (Suc retriesLeft) s1)))"

text \<open>
  The agent node: the system prompt is put in front of the history, the model is invoked
  with retries, and a failure whose text names one of three Gemini content errors becomes
  an AI message instead of an exception. The \<^verbatim>\<open>llm_start\<close>, \<^verbatim>\<open>think\<close> and \<^verbatim>\<open>llm_complete\<close>
  events come from the provider library's callbacks and are left out of the event list.
\<close>

definition messageOfResponse :: "LLMResponse \<Rightarrow> Message" where
  "messageOfResponse r =
     \<lparr> msg_id = map_option Given (response_id r), msg_type = TypeAI,
       content = response_content r, tool_calls = response_tool_calls r,
       tool_call_id = [], finishReason = response_finishReason r \<rparr>"

definition agentNode ::
  "World \<Rightarrow> Params \<Rightarrow> ModelConfig \<Rightarrow> AgentState \<Rightarrow> Message list
     \<Rightarrow> AgentState \<times> (thrown + Message list)" where
  "agentNode w p cfg s state_messages =
     (let systemMessage = HumanMessage (Text (systemPrompt p));
          allMessages = systemMessage # state_messages
      in case invokeWithRetry w p cfg allMessages 1 (maxRetries (params_model p) - 1) s of
           (s1, Inr r) \<Rightarrow> (s1, Inr [messageOfResponse r])
         | (s1, Inl e) \<Rightarrow>
             (let errorMessage = stringOfThrown e
              in if includes_str errorMessage ''candidateContent'' \<or>
                    includes_str errorMessage ''parts.reduce'' \<or>
                    includes_str errorMessage ''undefined is not an object''
                 then (s1, Inr [AIMessage
                          (Text (''[Gemini Error] Unable to generate response due to content filtering. Error: '' @ errorMessage))
                          (Some ''ERROR'')])
                 else (s1, Inl e)))"

section \<open>The graph: agent, tools, end\<close>

datatype Node = AgentNode | ToolsNode

definition shouldContinue :: "Message list \<Rightarrow> bool" where
  "shouldContinue state_messages =
     (state_messages \<noteq> [] \<and> tool_calls (last state_messages) \<noteq> [])"

definition shouldContinueAfterTools :: "AgentState \<Rightarrow> Node option" where
  "shouldContinueAfterTools s = (if shouldStopAfterTools s then None else Some AgentNode)"

text \<open>
  One execution of a node of the compiled graph: the node runs and the reducer merges its
  update into the history. The arguments a before-hook assigned to \<^verbatim>\<open>toolCall.args\<close>
  are in the AI message of the history when the tools node returns.
\<close>

definition agentStep ::
  "World \<Rightarrow> Params \<Rightarrow> ModelConfig \<Rightarrow> AgentState \<Rightarrow> Message list
     \<Rightarrow> AgentState \<times> (thrown + Message list)" where
  "agentStep w p cfg s state_messages =
     (case agentNode w p cfg s state_messages of
        (s1, Inl e) \<Rightarrow> (s1, Inl e)
      | (s1, Inr update) \<Rightarrow>
          (case messagesStateReducer s1 state_messages update of
             (s2, messages2) \<Rightarrow> (s2, Inr messages2)))"

definition toolsStep ::
  "World \<Rightarrow> Params \<Rightarrow> Tool list \<Rightarrow> AgentState \<Rightarrow> Message list
     \<Rightarrow> AgentState \<times> (thrown + Message list)" where
  "toolsStep w p agentTools s state_messages =
     (case executeToolsWithHooks w p s state_messages agentTools of
        Inl e \<Rightarrow> (s, Inl e)
      | Inr (s1, lastMessage1, update) \<Rightarrow>
          (case messagesStateReducer s1
                  (writeBack (last state_messages) lastMessage1 state_messages) update of
             (s2, messages2) \<Rightarrow> (s2, Inr messages2)))"

text \<open>
  The compiled graph. The graph runtime is a library; it is modelled as the bounded loop
  over the two nodes that the graph built in \<^verbatim>\<open>createAgentGraph\<close> describes: after the agent
  node the edge \<^verbatim>\<open>shouldContinue\<close> leads to the tools node or to the end, after the tools
  node the edge \<^verbatim>\<open>shouldContinueAfterTools\<close> leads to the agent node or to the end, and
  with no tools the single edge leads from the agent node to the end. Each node execution
  is one step of the recursion limit. The runtime raises its recursion error as soon as
  the node executions reach the limit, also when the edge after that node would lead to
  the end: a run ends normally only with fewer node executions than the limit. The text
  of the runtime's error is abbreviated.
\<close>

definition graphRecursionError :: thrown where
  "graphRecursionError = Error ''Recursion limit reached without hitting a stop condition''"

fun runGraph ::
  "World \<Rightarrow> Params \<Rightarrow> ModelConfig \<Rightarrow> Tool list \<Rightarrow> nat \<Rightarrow> Node \<Rightarrow> AgentState \<Rightarrow> Message list
     \<Rightarrow> AgentState \<times> (thrown + Message list)" where
  "runGraph w p cfg agentTools 0 node s state_messages = (s, Inl graphRecursionError)"
| "runGraph w p cfg agentTools (Suc limit) AgentNode s state_messages =
     (case agentStep w p cfg s state_messages of
        (s1, Inl e) \<Rightarrow> (s1, Inl e)
      | (s2, Inr messages2) \<Rightarrow>
          if limit = 0 then (s2, Inl graphRecursionError)
          else if agentTools \<noteq> [] \<and> shouldContinue messages2
          then runGraph w p cfg agentTools limit ToolsNode s2 messages2
          else (s2, Inr messages2))"
| "runGraph w p cfg agentTools (Suc limit) ToolsNode s state_messages =
     (case toolsStep w p agentTools s state_messages of
        (s1, Inl e) \<Rightarrow> (s1, Inl e)
      | (s2, Inr messages2) \<Rightarrow>
          if limit = 0 then (s2, Inl graphRecursionError)
          else (case shouldContinueAfterTools s2 of
                  None \<Rightarrow> (s2, Inr messages2)
                | Some node \<Rightarrow> runGraph w p cfg agentTools limit node s2 messages2))"

definition graph_invoke ::
  "World \<Rightarrow> Params \<Rightarrow> ModelConfig \<Rightarrow> Tool list \<Rightarrow> AgentState \<Rightarrow> Message \<Rightarrow> nat
     \<Rightarrow> AgentState \<times> (thrown + Message list)" where
  "graph_invoke w p cfg agentTools s humanMessage recursionLimit =
     (case messagesStateReducer s [] [humanMessage] of
        (s1, messages1) \<Rightarrow> runGraph w p cfg agentTools recursionLimit AgentNode s1 messages1)"

section \<open>The final result and the accountant\<close>

record ToolCallRecord =
  call_tool :: string
  call_input :: jsval
  call_output :: jsval

record AIAgentResult =
  response :: string
  toolCalls :: "ToolCallRecord list"
  iterations :: nat
  error :: string
  success :: bool

definition jsval_of_part :: "ContentPart \<Rightarrow> jsval" where
  "jsval_of_part part =
     (case part of
        TextPart t \<Rightarrow> JObj [(''type'', JStr ''text''), (''text'', JStr t)]
      | ImageUrlPart u \<Rightarrow>
          JObj [(''type'', JStr ''image_url''), (''image_url'', JObj [(''url'', JStr u)])])"

text \<open>
  The output of a tool-result message: a string content is parsed as JSON and kept as
  the string when it does not parse; any other content is taken as it is.
\<close>

definition parseOutput :: "World \<Rightarrow> MessageContent \<Rightarrow> jsval" where
  "parseOutput w c =
     (case c of
        Text s \<Rightarrow> (case json_parse w s of Some v \<Rightarrow> v | None \<Rightarrow> JStr s)
      | Parts ps \<Rightarrow> JArr (map jsval_of_part ps))"

fun recordToolCalls ::
  "ToolCall list \<Rightarrow> (string \<rightharpoonup> string \<times> jsval) \<Rightarrow> (string \<rightharpoonup> string \<times> jsval)" where
  "recordToolCalls [] toolCallMap = toolCallMap"
| "recordToolCalls (toolCall # rest) toolCallMap =
     recordToolCalls rest (toolCallMap(tc_id toolCall \<mapsto> (tc_name toolCall, tc_args toolCall)))"

text \<open>
  The walk over \<^verbatim>\<open>result.messages\<close>: an AI message records its tool calls in the map; a
  tool-result message whose id is in the map adds an entry to \<^verbatim>\<open>toolCalls\<close>.
\<close>

fun extractToolCalls ::
  "World \<Rightarrow> Message list \<Rightarrow> (string \<rightharpoonup> string \<times> jsval) \<Rightarrow> ToolCallRecord list \<Rightarrow> ToolCallRecord list" where
  "extractToolCalls w [] toolCallMap acc = acc"
| "extractToolCalls w (msg # rest) toolCallMap acc =
     (if msg_type msg = TypeAI
      then extractToolCalls w rest (recordToolCalls (tool_calls msg) toolCallMap) acc
      else if msg_type msg = TypeTool
      then (case toolCallMap (tool_call_id msg) of
              Some (name, args) \<Rightarrow>
                extractToolCalls w rest toolCallMap
                  (acc @ [\<lparr> call_tool = name, call_input = args,
                            call_output = parseOutput w (content msg) \<rparr>])
            | None \<Rightarrow> extractToolCalls w rest toolCallMap acc)
      else extractToolCalls w rest toolCallMap acc)"

section \<open>Building the human message\<close>

definition imageUrlOf :: "World \<Rightarrow> ImageInput \<Rightarrow> thrown + string" where
  "imageUrlOf w img =
     (case img of
        Base64Image image_data mimeType description \<Rightarrow>
          Inr (''data:'' @ mimeType @ '';base64,'' @ image_data)
      | UrlImage url description \<Rightarrow>
          (case (case fetch w url of
                   Inl e \<Rightarrow> Inl e
                 | Inr r \<Rightarrow>
                     if \<not> ok r
                     then Inl (Error (''Failed to fetch image: '' @ string_of_nat (status r) @
                                       '' '' @ statusText r))
                     else (case arrayBuffer r of
                             Inl e \<Rightarrow> Inl e
                           | Inr base64Data \<Rightarrow>
                               Inr (''data:'' @
                                    (case contentType r of
                                       None \<Rightarrow> ''image/png''
                                     | Some ct \<Rightarrow> if ct = [] then ''image/png'' else ct) @
                                    '';base64,'' @ base64Data))) of
             Inl e \<Rightarrow>
               Inl (Error (''Failed to load image from URL '' @ url @ '': '' @ errorMessageOf e))
           | Inr imageUrl \<Rightarrow> Inr imageUrl))"

definition descriptionOf :: "ImageInput \<Rightarrow> string option" where
  "descriptionOf img =
     (case img of Base64Image d m description \<Rightarrow> description | UrlImage u description \<Rightarrow> description)"

fun imageParts :: "World \<Rightarrow> ImageInput list \<Rightarrow> thrown + ContentPart list" where
  "imageParts w [] = Inr []"
| "imageParts w (img # rest) =
     (case imageUrlOf w img of
        Inl e \<Rightarrow> Inl e
      | Inr imageUrl \<Rightarrow>
          (case imageParts w rest of
             Inl e \<Rightarrow> Inl e
           | Inr parts \<Rightarrow>
               Inr (ImageUrlPart imageUrl #
                    (case descriptionOf img of
                       None \<Rightarrow> []
                     | Some d \<Rightarrow> if d = [] then [] else [TextPart (''Image description: '' @ d)]) @
                    parts)))"

definition buildHumanMessage :: "World \<Rightarrow> string \<Rightarrow> ImageInput list \<Rightarrow> thrown + Message" where
  "buildHumanMessage w msg imgs =
     (if imgs \<noteq> []
      then (case imageParts w imgs of
              Inl e \<Rightarrow> Inl e
            | Inr parts \<Rightarrow> Inr (HumanMessage (Parts (TextPart msg # parts))))
      else Inr (HumanMessage (Text msg)))"

section \<open>executeAgent: the body of its try block\<close>

definition lastAIMessage :: "Message list \<Rightarrow> Message option" where
  "lastAIMessage ms =
     (case filter (\<lambda>m. msg_type m = TypeAI) ms of [] \<Rightarrow> None | a # as \<Rightarrow> Some (last (a # as)))"

definition truthy :: "string option \<Rightarrow> bool" where
  "truthy v = (case v of None \<Rightarrow> False | Some s \<Rightarrow> s \<noteq> [])"

text \<open>
  What follows \<^verbatim>\<open>graph.invoke\<close>: the iteration count, the accounted tool calls, the two
  finish-reason errors and the formatted response. The token tally is only logged and
  is left out. An error thrown in the try block reaches the catch block together with
  the values \<^verbatim>\<open>toolCalls\<close> and \<^verbatim>\<open>iterations\<close> had when it was thrown.
\<close>

type_synonym Caught = "thrown \<times> ToolCallRecord list \<times> nat"

definition finishExecution ::
  "World \<Rightarrow> ModelConfig \<Rightarrow> Message list \<Rightarrow> Caught + AIAgentResult" where
  "finishExecution w modelConfig result_messages =
     (let calls = extractToolCalls w result_messages Map.empty [];
          finalMessage = lastAIMessage result_messages
      in if (case finalMessage of None \<Rightarrow> False | Some m \<Rightarrow> finishReason m = Some ''SAFETY_BLOCKED'')
         then Inl (Error ''[Gemini Error] Unable to generate a response. Please increase maxTokens in model configuration or try again with a different model.'',
                  calls, length result_messages)
         else if (case finalMessage of None \<Rightarrow> False | Some m \<Rightarrow> finishReason m = Some ''MAX_TOKENS'')
         then Inl (Error ''Response was truncated due to max tokens limit. Please increase maxTokens in model configuration.'',
                  calls, length result_messages)
         else
           (let resp = (case finalMessage of None \<Rightarrow> Text [] | Some m \<Rightarrow> content m);
                formattedResult = formatFinalResponse w resp (model modelConfig) (jsonMode modelConfig)
            in if truthy (formatted_error formattedResult)
               then Inr \<lparr> response = formatted_response formattedResult,
                          toolCalls = calls,
                          iterations = length result_messages,
                          error = (case formatted_error formattedResult of Some e \<Rightarrow> e | None \<Rightarrow> []),
                          success = False \<rparr>
               else Inr \<lparr> response = formatted_response formattedResult,
                          toolCalls = calls,
                          iterations = length result_messages,
                          error = [],
                          success = True \<rparr>))"

definition executeAgentTry ::
  "World \<Rightarrow> Params \<Rightarrow> ModelConfig \<Rightarrow> Tool list \<Rightarrow> AgentState
     \<Rightarrow> AgentState \<times> (Caught + AIAgentResult)" where
  "executeAgentTry w p modelConfig agentTools s =
     (case buildHumanMessage w (message p) (images p) of
        Inl e \<Rightarrow> (s, Inl (e, [], 0))
      | Inr humanMessage \<Rightarrow>
          (case graph_invoke w p modelConfig agentTools s humanMessage (maxIterations p) of
             (s1, Inl e) \<Rightarrow> (s1, Inl (e, [], 0))
           | (s1, Inr result_messages) \<Rightarrow> (s1, finishExecution w modelConfig result_messages)))"

section \<open>Initialising the model and the tools\<close>

definition providerOf :: "string \<Rightarrow> string" where
  "providerOf m = (if CHR ''/'' \<in> set m then takeWhile (\<lambda>c. c \<noteq> CHR ''/'') m else [])"

definition credentialTypeOf :: "string \<Rightarrow> CredentialType option" where
  "credentialTypeOf prov =
     (if prov = ''openai'' then Some OPENAI_CRED
      else if prov = ''google'' then Some GOOGLE_GEMINI_CRED
      else if prov = ''anthropic'' then Some ANTHROPIC_CRED
      else if prov = ''openrouter'' then Some OPENROUTER_CRED
      else None)"

text \<open>
  \<^verbatim>\<open>initializeModel\<close>: the checks that can throw before the chat client is constructed.
  The client itself is the world's \<^verbatim>\<open>llm_invoke\<close> at this config.
\<close>

definition initializeModel :: "Params \<Rightarrow> ModelConfig \<Rightarrow> thrown + unit" where
  "initializeModel p modelConfig =
     (let prov = providerOf (model modelConfig)
      in case credentials p of
           None \<Rightarrow> Inl (Error (''No '' @ toUpperCase prov @ '' credentials provided''))
         | Some creds \<Rightarrow>
             (case credentialTypeOf prov of
                None \<Rightarrow> Inl (Error (''Unsupported model provider: '' @ prov))
              | Some ct \<Rightarrow>
                  if truthy (creds ct) then Inr ()
                  else Inl (Error (''No credential found for provider: '' @ prov))))"

fun initializeCustomTools :: "World \<Rightarrow> CustomTool list \<Rightarrow> Tool list" where
  "initializeCustomTools w [] = []"
| "initializeCustomTools w (customTool # rest) =
     (case newDynamicStructuredTool w (custom_name customTool) (custom_func customTool) of
        Inl e \<Rightarrow> initializeCustomTools w rest
      | Inr dynamicTool \<Rightarrow> dynamicTool # initializeCustomTools w rest)"

definition toolCredentialsFor :: "World \<Rightarrow> Params \<Rightarrow> ToolConfig \<Rightarrow> (CredentialType \<rightharpoonup> string)" where
  "toolCredentialsFor w p toolConfig =
     (\<lambda>credType.
        if credType \<in> set (credential_options w (cfg_name toolConfig))
        then (case credentials p of
                None \<Rightarrow> None
              | Some creds \<Rightarrow> if truthy (creds credType) then creds credType else None)
        else None)
     ++ (case cfg_credentials toolConfig of None \<Rightarrow> Map.empty | Some explicit \<Rightarrow> explicit)"

definition initializeFactoryTool :: "World \<Rightarrow> Params \<Rightarrow> ToolConfig \<Rightarrow> Tool option" where
  "initializeFactoryTool w p toolConfig =
     (case factory_get w (cfg_name toolConfig) of
        Inl e \<Rightarrow> None
      | Inr None \<Rightarrow> None
      | Inr (Some toolBubbleClass) \<Rightarrow>
          if bubble_type toolBubbleClass \<noteq> Some ''tool'' then None
          else (case toolAgent toolBubbleClass of
                  None \<Rightarrow> None
                | Some mk \<Rightarrow>
                    (case mk (toolCredentialsFor w p toolConfig)
                            (case cfg_config toolConfig of None \<Rightarrow> JObj [] | Some c \<Rightarrow> c) of
                       Inl e \<Rightarrow> None
                     | Inr langGraphTool \<Rightarrow>
                         (case newDynamicStructuredTool w (tool_name langGraphTool)
                                 (invoke langGraphTool) of
                            Inl e \<Rightarrow> None
                          | Inr dynamicTool \<Rightarrow> Some dynamicTool))))"

definition initializeTools :: "World \<Rightarrow> Params \<Rightarrow> thrown + Tool list" where
  "initializeTools w p =
     (case registerDefaults w of
        Some e \<Rightarrow> Inl e
      | None \<Rightarrow>
          Inr (initializeCustomTools w (customTools p) @
               List.map_filter (initializeFactoryTool w p) (tools p)))"

section \<open>executeWithModel, executeAgent and performAction\<close>

definition failureResult :: "Caught \<Rightarrow> AIAgentResult" where
  "failureResult c =
     (case c of (e, calls, n) \<Rightarrow>
        \<lparr> response = ''Execution error: '' @ errorMessageOf e,
          toolCalls = calls,
          iterations = n,
          error = errorMessageOf e,
          success = False \<rparr>)"

definition fallbackEvent :: "ModelConfig \<Rightarrow> BackupModelConfig \<Rightarrow> thrown \<Rightarrow> StreamingEvent" where
  "fallbackEvent modelConfig backup e =
     error_event
       (''Primary model '' @ model modelConfig @ '' failed: '' @ errorMessageOf e @
        ''. Retrying with backup model... '' @ b_model backup)
       True"

text \<open>
  \<^verbatim>\<open>executeWithModel\<close> initialises the model and the tools and calls \<^verbatim>\<open>executeAgent\<close>;
  the catch block of \<^verbatim>\<open>executeAgent\<close> calls \<^verbatim>\<open>executeWithModel\<close> again when the config it
  ran with has a backup model. Each entry into \<^verbatim>\<open>executeWithModel\<close> is logged in
  \<^verbatim>\<open>modelRuns\<close> with the config it was given.
\<close>

function executeWithModel ::
    "World \<Rightarrow> Params \<Rightarrow> ModelConfig \<Rightarrow> AgentState \<Rightarrow> AgentState \<times> (thrown + AIAgentResult)"
  and executeAgent ::
    "World \<Rightarrow> Params \<Rightarrow> ModelConfig \<Rightarrow> Tool list \<Rightarrow> AgentState
       \<Rightarrow> AgentState \<times> (thrown + AIAgentResult)"
where
  "executeWithModel w p modelConfig s =
     (let s0 = s\<lparr>modelRuns := modelRuns s @ [modelConfig]\<rparr>
      in case initializeModel p modelConfig of
           Inl e \<Rightarrow> (s0, Inl e)
         | Inr llm \<Rightarrow>
             (case initializeTools w p of
                Inl e \<Rightarrow> (s0, Inl e)
              | Inr agentTools \<Rightarrow> executeAgent w p modelConfig agentTools s0))"
| "executeAgent w p modelConfig agentTools s =
     (case executeAgentTry w p modelConfig agentTools s of
        (s1, Inr r) \<Rightarrow> (s1, Inr r)
      | (s1, Inl c) \<Rightarrow>
          (case backupModel modelConfig of
             Some backup \<Rightarrow>
               executeWithModel w p (buildModelConfig modelConfig (Some backup))
                 (emit p (fallbackEvent modelConfig backup (fst c)) s1)
           | None \<Rightarrow> (s1, Inr (failureResult c))))"
  by pat_completeness auto
termination
  by (relation "measure (\<lambda>x. case x of
                   Inl (w, p, modelConfig, s) \<Rightarrow>
                     (if backupModel modelConfig = None then 1 else 3)
                 | Inr (w, p, modelConfig, agentTools, s) \<Rightarrow>
                     (if backupModel modelConfig = None then 0 else 2))")
     (auto simp: buildModelConfig_def)

declare executeWithModel.simps [simp del] executeAgent.simps [simp del]

text \<open>
  \<^verbatim>\<open>performAction\<close>: the try block returns what \<^verbatim>\<open>executeWithModel\<close> returns; the catch
  block turns a thrown value into a result.
\<close>

definition performAction ::
  "World \<Rightarrow> Params \<Rightarrow> AgentState \<Rightarrow> AgentState \<times> (thrown + AIAgentResult)" where
  "performAction w p s =
     (case executeWithModel w p (params_model p) s of
        (s1, Inr r) \<Rightarrow> (s1, Inr r)
      | (s1, Inl e) \<Rightarrow>
          (s1, Inr \<lparr> response = ''Error: '' @ errorMessageOf e,
                     toolCalls = [],
                     iterations = 0,
                     error = errorMessageOf e,
                     success = False \<rparr>))"

definition initialState :: AgentState where
  "initialState =
     \<lparr> shouldStopAfterTools = False, events = [], llmCalls = 0, randomDraws = 0,
       sleeps = [], nextId = 0, modelRuns = [] \<rparr>"

section \<open>Predicates used in the statements\<close>








text \<open>The messages of an update that have no id, with the ids the reducer generates from k on.\<close>

definition withIds :: "nat \<Rightarrow> Message list \<Rightarrow> Message list" where
  "withIds k ms = map (\<lambda>(j, m). m\<lparr>msg_id := Some (Generated j)\<rparr>) (enumerate k ms)"

section \<open>Example inputs\<close>

text \<open>Concrete worlds, parameters and tools at which the theorems below are evaluated.\<close>

definition textResponse :: "string \<Rightarrow> LLMResponse" where
  "textResponse t =
     \<lparr> response_id = None, response_content = Text t, response_tool_calls = [],
       response_finishReason = None \<rparr>"

definition callsResponse :: "ToolCall list \<Rightarrow> LLMResponse" where
  "callsResponse calls =
     \<lparr> response_id = None, response_content = Text ''Let me check.'',
       response_tool_calls = calls,
       response_finishReason = None \<rparr>"

definition plainFormat :: "MessageContent \<Rightarrow> string \<Rightarrow> bool \<Rightarrow> FormattedResult" where
  "plainFormat c m j =
     \<lparr> formatted_response = (case c of Text t \<Rightarrow> t | Parts ps \<Rightarrow> []),
       formatted_error = None \<rparr>"

text \<open>
  The platform's JSON functions on the values and texts that occur in the examples; no
  other value is printed and no other text is parsed there.
\<close>

definition exampleStringify :: "jsval \<Rightarrow> string" where
  "exampleStringify v =
     (if v = JObj [(''q'', JStr ''original'')] then ''{\"q\":\"original\"}''
      else if v = JObj [(''q'', JStr ''rewritten'')] then ''{\"q\":\"rewritten\"}''
      else if v = JObj [] then ''{}''
      else ''null'')"

definition exampleParse :: "string \<Rightarrow> jsval option" where
  "exampleParse t =
     (if t = ''{\"q\":\"original\"}'' then Some (JObj [(''q'', JStr ''original'')])
      else if t = ''{\"q\":\"rewritten\"}'' then Some (JObj [(''q'', JStr ''rewritten'')])
      else if t = ''{}'' then Some (JObj [])
      else if t = ''[1, 2]'' then Some (JArr [JNum 1, JNum 2])
      else if t = ''null'' then Some JNull
      else None)"

definition worldWith :: "(ModelConfig \<Rightarrow> nat \<Rightarrow> Message list \<Rightarrow> thrown + LLMResponse) \<Rightarrow> World" where
  "worldWith llm =
     \<lparr> llm_invoke = llm,
       math_random = (\<lambda>k. 0),
       fetch = (\<lambda>u. Inl (Error ''network unreachable'')),
       registerDefaults = None,
       factory_get = (\<lambda>n. Inr None),
       credential_options = (\<lambda>n. []),
       newDynamicStructuredTool = (\<lambda>n f. Inr \<lparr> tool_name = n, invoke = f \<rparr>),
       formatFinalResponse = plainFormat,
       json_stringify = exampleStringify,
       json_parse = exampleParse,
       isNetworkError = (\<lambda>m. m = ''Failed to fetch'') \<rparr>"

definition geminiFlash :: ModelConfig where
  "geminiFlash =
     \<lparr> model = ''google/gemini-2.5-flash'', temperature = 1, maxTokens = 12800,
       maxRetries = 3, provider = None, jsonMode = False, backupModel = None \<rparr>"

definition paramsWith ::
  "string \<Rightarrow> ModelConfig \<Rightarrow> CustomTool list \<Rightarrow> ToolHookBefore option \<Rightarrow> ToolHookAfter option
     \<Rightarrow> Params" where
  "paramsWith msg cfg custom hookBefore hookAfter =
     \<lparr> message = msg, images = [], systemPrompt = ''You are a helpful AI assistant'',
       params_model = cfg, tools = [], customTools = custom, maxIterations = 10,
       credentials = Some [GOOGLE_GEMINI_CRED \<mapsto> ''key'', OPENAI_CRED \<mapsto> ''key''],
       beforeToolCall = hookBefore, afterToolCall = hookAfter, streamingCallback = True \<rparr>"

definition echoTool :: Tool where
  "echoTool = \<lparr> tool_name = ''echo'', invoke = (\<lambda>a. Inr a) \<rparr>"

definition echoCustom :: CustomTool where
  "echoCustom = \<lparr> custom_name = ''echo'', custom_func = (\<lambda>a. Inr a) \<rparr>"

definition echoCall :: ToolCall where
  "echoCall = \<lparr> tc_id = ''call_1'', tc_name = ''echo'', tc_args = JObj [(''q'', JStr ''original'')] \<rparr>"

definition missingCall :: ToolCall where
  "missingCall = \<lparr> tc_id = ''call_0'', tc_name = ''lookup'', tc_args = JObj [] \<rparr>"

definition rewriteHook :: ToolHookBefore where
  "rewriteHook ctx =
     Inr (Some \<lparr> before_messages = Some (messages ctx),
                 before_toolInput = JObj [(''q'', JStr ''rewritten'')] \<rparr>)"

definition humanAsked :: Message where
  "humanAsked = (HumanMessage (Text ''hello''))\<lparr>msg_id := Some (Generated 0)\<rparr>"

definition aiCalls :: "ToolCall list \<Rightarrow> Message" where
  "aiCalls calls =
     (messageOfResponse (callsResponse calls))\<lparr>msg_id := Some (Generated 1)\<rparr>"

definition loopStart :: "ToolCall list \<Rightarrow> ToolLoop" where
  "loopStart calls =
     \<lparr> this = \<lparr> shouldStopAfterTools = False, events = [], llmCalls = 1, randomDraws = 0,
                sleeps = [], nextId = 2, modelRuns = [geminiFlash] \<rparr>,
       lastMessage = aiCalls calls,
       toolMessages = [],
       currentMessages = [humanAsked, aiCalls calls] \<rparr>"

definition gptMini :: BackupModelConfig where
  "gptMini =
     \<lparr> b_model = ''openai/gpt-5-mini'', b_temperature = None, b_maxTokens = None,
       b_maxRetries = None \<rparr>"

definition geminiWithBackup :: ModelConfig where
  "geminiWithBackup = geminiFlash\<lparr>backupModel := Some gptMini\<rparr>"

definition failingWorld :: "string \<Rightarrow> World" where
  "failingWorld msg = worldWith (\<lambda>cfg n ms. Inl (Error msg))"

definition answeringWorld :: "string \<Rightarrow> World" where
  "answeringWorld t = worldWith (\<lambda>cfg n ms. Inr (textResponse t))"

definition twoPlusTwo :: Params where
  "twoPlusTwo = paramsWith ''2+2?'' geminiFlash [] None None"

definition callingWorld :: "ToolCall list \<Rightarrow> World" where
  "callingWorld calls =
     worldWith (\<lambda>cfg n ms. if n = 0 then Inr (callsResponse calls) else Inr (textResponse ''done''))"

definition noteHook :: ToolHookAfter where
  "noteHook ctx =
     Inr (Some \<lparr> after_messages = Some (messages ctx @ [HumanMessage (Text ''note'')]),
                 shouldStop = None \<rparr>)"





definition afterAgent :: AgentState where
  "afterAgent =
     \<lparr> shouldStopAfterTools = False, events = [], llmCalls = 1, randomDraws = 0,
       sleeps = [], nextId = 2, modelRuns = [geminiFlash] \<rparr>"



definition failCustom :: CustomTool where
  "failCustom = \<lparr> custom_name = ''lookup'', custom_func = (\<lambda>a. Inl (Error ''boom'')) \<rparr>"
section \<open>What each step leaves unchanged\<close>

lemma this_applyBeforeResult [simp]: "this (applyBeforeResult i hb l) = this l"
  by (simp add: applyBeforeResult_def Let_def split: option.splits)

lemma this_catchToolError [simp]: "this (catchToolError cid e l) = this l"
  by (simp add: catchToolError_def Let_def)

lemma modelRuns_emit [simp]: "modelRuns (emit p ev s) = modelRuns s"
  by (simp add: emit_def)

lemma llmCalls_emit [simp]: "llmCalls (emit p ev s) = llmCalls s"
  by (simp add: emit_def)

lemma nextId_emit [simp]: "nextId (emit p ev s) = nextId s"
  by (simp add: emit_def)

lemma nextId_applyAfterResult [simp]:
  "nextId (this (applyAfterResult ha l)) = nextId (this l)"
  by (simp add: applyAfterResult_def Let_def split: option.splits)

lemma nextId_executeToolCall [simp]:
  "nextId (this (executeToolCall w p ts l ic)) = nextId (this l)"
  by (cases ic) (simp add: executeToolCall_def Let_def split: option.splits sum.splits)

lemma nextId_toolLoop [simp]:
  "nextId (this (foldl (executeToolCall w p ts) l ics)) = nextId (this l)"
  by (induction ics arbitrary: l) simp_all

lemma modelRuns_applyAfterResult [simp]:
  "modelRuns (this (applyAfterResult ha l)) = modelRuns (this l)"
  by (simp add: applyAfterResult_def Let_def split: option.splits)

lemma llmCalls_applyAfterResult [simp]:
  "llmCalls (this (applyAfterResult ha l)) = llmCalls (this l)"
  by (simp add: applyAfterResult_def Let_def split: option.splits)

lemma modelRuns_executeToolCall [simp]:
  "modelRuns (this (executeToolCall w p ts l ic)) = modelRuns (this l)"
  by (cases ic) (simp add: executeToolCall_def Let_def split: option.splits sum.splits)

lemma llmCalls_executeToolCall [simp]:
  "llmCalls (this (executeToolCall w p ts l ic)) = llmCalls (this l)"
  by (cases ic) (simp add: executeToolCall_def Let_def split: option.splits sum.splits)

lemma modelRuns_toolLoop [simp]:
  "modelRuns (this (foldl (executeToolCall w p ts) l ics)) = modelRuns (this l)"
  by (induction ics arbitrary: l) simp_all

lemma llmCalls_toolLoop [simp]:
  "llmCalls (this (foldl (executeToolCall w p ts) l ics)) = llmCalls (this l)"
  by (induction ics arbitrary: l) simp_all

lemma executeToolsWithHooks_frame:
  "executeToolsWithHooks w p s ms ts = Inr (s1, lm, upd) \<Longrightarrow>
     modelRuns s1 = modelRuns s \<and> llmCalls s1 = llmCalls s \<and> nextId s1 = nextId s"
  by (auto simp: executeToolsWithHooks_def Let_def split: if_splits)

lemma messagesStateReducer_frame:
  "messagesStateReducer s l r = (s1, ms) \<Longrightarrow>
     modelRuns s1 = modelRuns s \<and> llmCalls s1 = llmCalls s \<and>
     shouldStopAfterTools s1 = shouldStopAfterTools s \<and> events s1 = events s"
  by (auto simp: messagesStateReducer_def split: prod.splits)

lemma modelRuns_onFailedAttempt [simp]:
  "modelRuns (onFailedAttempt w p e a r s) = modelRuns s"
  by (simp add: onFailedAttempt_def Let_def)

lemma modelRuns_invokeWithRetry:
  "invokeWithRetry w p cfg ms a r s = (s1, res) \<Longrightarrow> modelRuns s1 = modelRuns s"
  by (induction r arbitrary: a s) (auto simp: Let_def split: sum.splits option.splits)

lemma modelRuns_agentNode:
  "agentNode w p cfg s ms = (s1, res) \<Longrightarrow> modelRuns s1 = modelRuns s"
  by (auto simp: agentNode_def Let_def split: prod.splits sum.splits if_splits
           dest: modelRuns_invokeWithRetry)

lemma agentStep_frame:
  "agentStep w p cfg s ms = (s1, res) \<Longrightarrow> modelRuns s1 = modelRuns s"
  by (auto simp: agentStep_def split: prod.splits sum.splits
           dest!: modelRuns_agentNode messagesStateReducer_frame)

lemma toolsStep_frame:
  "toolsStep w p ts s ms = (s1, res) \<Longrightarrow>
     modelRuns s1 = modelRuns s \<and> llmCalls s1 = llmCalls s"
  by (auto simp: toolsStep_def split: prod.splits sum.splits
           dest!: executeToolsWithHooks_frame messagesStateReducer_frame)

lemma modelRuns_runGraph:
  "runGraph w p cfg ts limit node s ms = (s1, res) \<Longrightarrow> modelRuns s1 = modelRuns s"
proof (induction w p cfg ts limit node s ms arbitrary: s1 res rule: runGraph.induct)
  case (1 w p cfg agentTools node s state_messages)
  then show ?case by simp
next
  case (2 w p cfg agentTools limit s state_messages)
  obtain sa ra where a: "agentStep w p cfg s state_messages = (sa, ra)" by force
  have sa: "modelRuns sa = modelRuns s" using a by (rule agentStep_frame)
  show ?case
  proof (cases ra)
    case (Inl e)
    with a "2.prems" sa show ?thesis by simp
  next
    case (Inr m2)
    show ?thesis
    proof (cases "limit \<noteq> 0 \<and> agentTools \<noteq> [] \<and> shouldContinue m2")
      case True
      with a Inr "2.prems" have "runGraph w p cfg agentTools limit ToolsNode sa m2 = (s1, res)"
        by simp
      from "2.IH" [OF a [symmetric] Inr _ _ this] True sa show ?thesis by simp
    next
      case False
      with a Inr "2.prems" sa show ?thesis by (auto split: if_splits)
    qed
  qed
next
  case (3 w p cfg agentTools limit s state_messages)
  obtain st rt where t: "toolsStep w p agentTools s state_messages = (st, rt)" by force
  have st: "modelRuns st = modelRuns s" using toolsStep_frame [OF t] by simp
  show ?case
  proof (cases rt)
    case (Inl e)
    with t "3.prems" st show ?thesis by simp
  next
    case (Inr m2)
    show ?thesis
    proof (cases "limit \<noteq> 0 \<and> shouldContinueAfterTools st \<noteq> None")
      case True
      then obtain node where n: "shouldContinueAfterTools st = Some node" by auto
      with True t Inr "3.prems" have "runGraph w p cfg agentTools limit node st m2 = (s1, res)"
        by simp
      from "3.IH" [OF t [symmetric] Inr _ n this] True st show ?thesis by simp
    next
      case False
      with t Inr "3.prems" st show ?thesis by (auto split: if_splits option.splits)
    qed
  qed
qed

lemma modelRuns_executeAgentTry:
  "executeAgentTry w p cfg ts s = (s1, res) \<Longrightarrow> modelRuns s1 = modelRuns s"
  by (auto simp: executeAgentTry_def graph_invoke_def split: sum.splits prod.splits
           dest!: modelRuns_runGraph messagesStateReducer_frame)

lemma events_applyAfterResult [simp]:
  "events (this (applyAfterResult ha l)) = events (this l)"
  by (simp add: applyAfterResult_def Let_def split: option.splits)

section \<open>The reducer on an update of new messages\<close>

lemma withIds_Nil [simp]: "withIds k [] = []"
  by (simp add: withIds_def)

lemma withIds_Cons [simp]:
  "withIds k (m # ms) = m\<lparr>msg_id := Some (Generated k)\<rparr> # withIds (Suc k) ms"
  by (simp add: withIds_def)

lemma length_withIds [simp]: "length (withIds k ms) = length ms"
  by (simp add: withIds_def)

lemma msg_type_withIds [simp]: "map msg_type (withIds k ms) = map msg_type ms"
  by (induction ms arbitrary: k) simp_all

lemma content_withIds [simp]: "map content (withIds k ms) = map content ms"
  by (induction ms arbitrary: k) simp_all

lemma tool_call_id_withIds [simp]: "map tool_call_id (withIds k ms) = map tool_call_id ms"
  by (induction ms arbitrary: k) simp_all








lemma writeBack_same [simp]: "writeBack old old ms = ms"
  by (simp add: writeBack_def map_idI)



lemma writeBack_Nil_iff [simp]: "writeBack old new ms = [] \<longleftrightarrow> ms = []"
  by (simp add: writeBack_def)

subsection \<open>What the loop does to the AI message\<close>

lemma lastMessage_catchToolError [simp]: "lastMessage (catchToolError cid e l) = lastMessage l"
  by (simp add: catchToolError_def Let_def)

lemma lastMessage_applyAfterResult [simp]:
  "lastMessage (applyAfterResult ha l) = lastMessage l"
  by (simp add: applyAfterResult_def Let_def split: option.splits)

lemma lastMessage_applyBeforeResult [simp]:
  "msg_id (lastMessage (applyBeforeResult i hb l)) = msg_id (lastMessage l)"
  "msg_type (lastMessage (applyBeforeResult i hb l)) = msg_type (lastMessage l)"
  "content (lastMessage (applyBeforeResult i hb l)) = content (lastMessage l)"
  by (simp_all add: applyBeforeResult_def Let_def split: option.splits)

lemma lastMessage_executeToolCall [simp]:
  "msg_id (lastMessage (executeToolCall w p ts l ic)) = msg_id (lastMessage l)"
  "msg_type (lastMessage (executeToolCall w p ts l ic)) = msg_type (lastMessage l)"
  "content (lastMessage (executeToolCall w p ts l ic)) = content (lastMessage l)"
  by (cases ic; simp add: executeToolCall_def Let_def split: option.splits sum.splits)+

lemma lastMessage_toolLoop [simp]:
  "msg_id (lastMessage (foldl (executeToolCall w p ts) l ics)) = msg_id (lastMessage l)"
  "msg_type (lastMessage (foldl (executeToolCall w p ts) l ics)) = msg_type (lastMessage l)"
  "content (lastMessage (foldl (executeToolCall w p ts) l ics)) = content (lastMessage l)"
  by (induction ics arbitrary: l; simp)+

lemma executeToolsWithHooks_lastMessage:
  "executeToolsWithHooks w p s ms ts = Inr (s1, lm, upd) \<Longrightarrow>
     msg_id lm = msg_id (last ms) \<and> msg_type lm = msg_type (last ms) \<and>
     content lm = content (last ms)"
  by (auto simp: executeToolsWithHooks_def Let_def split: if_splits)

section \<open>Properties of the configuration merge\<close>

text \<open>
  C6. For every primary config p and backup config b, the derived config takes \<^verbatim>\<open>model\<close>
  from b; \<^verbatim>\<open>temperature\<close>, \<^verbatim>\<open>maxTokens\<close> and \<^verbatim>\<open>maxRetries\<close> from b when b sets them
  and from p otherwise; and it has no \<^verbatim>\<open>backupModel\<close>.
\<close>

theorem buildModelConfig_backup:
  "model (buildModelConfig p (Some b)) = b_model b \<and>
   (\<forall>t. b_temperature b = Some t \<longrightarrow> temperature (buildModelConfig p (Some b)) = t) \<and>
   (b_temperature b = None \<longrightarrow> temperature (buildModelConfig p (Some b)) = temperature p) \<and>
   (\<forall>t. b_maxTokens b = Some t \<longrightarrow> maxTokens (buildModelConfig p (Some b)) = t) \<and>
   (b_maxTokens b = None \<longrightarrow> maxTokens (buildModelConfig p (Some b)) = maxTokens p) \<and>
   (\<forall>r. b_maxRetries b = Some r \<longrightarrow> maxRetries (buildModelConfig p (Some b)) = r) \<and>
   (b_maxRetries b = None \<longrightarrow> maxRetries (buildModelConfig p (Some b)) = maxRetries p) \<and>
   backupModel (buildModelConfig p (Some b)) = None"
  by (simp add: buildModelConfig_def)

theorem buildModelConfig_backup_witness:
  "b_temperature \<lparr> b_model = ''openai/gpt-5-mini'', b_temperature = Some 0,
       b_maxTokens = None, b_maxRetries = None \<rparr> = Some 0 \<and>
   b_maxTokens \<lparr> b_model = ''openai/gpt-5-mini'', b_temperature = Some 0,
       b_maxTokens = None, b_maxRetries = None \<rparr> = None \<and>
   buildModelConfig
     \<lparr> model = ''google/gemini-2.5-flash'', temperature = 1, maxTokens = 12800,
       maxRetries = 3, provider = None, jsonMode = True,
       backupModel = Some \<lparr> b_model = ''openai/gpt-5-mini'', b_temperature = Some 0,
         b_maxTokens = None, b_maxRetries = None \<rparr> \<rparr>
     (Some \<lparr> b_model = ''openai/gpt-5-mini'', b_temperature = Some 0,
        b_maxTokens = None, b_maxRetries = None \<rparr>)
   = \<lparr> model = ''openai/gpt-5-mini'', temperature = 0, maxTokens = 12800,
       maxRetries = 3, provider = None, jsonMode = True, backupModel = None \<rparr>"
  using buildModelConfig_backup
    [of "\<lparr> model = ''google/gemini-2.5-flash'', temperature = 1, maxTokens = 12800,
          maxRetries = 3, provider = None, jsonMode = True,
          backupModel = Some \<lparr> b_model = ''openai/gpt-5-mini'', b_temperature = Some 0,
            b_maxTokens = None, b_maxRetries = None \<rparr> \<rparr>"
        "\<lparr> b_model = ''openai/gpt-5-mini'', b_temperature = Some 0,
          b_maxTokens = None, b_maxRetries = None \<rparr>"]
  by (simp add: buildModelConfig_def)

text \<open>
  C9. A model config with no \<^verbatim>\<open>backupModel\<close>, passed through the derivation with that
  (absent) backup, comes back unchanged.
\<close>

theorem buildModelConfig_no_backup:
  "backupModel c = None \<Longrightarrow> buildModelConfig c (backupModel c) = c"
  by (simp add: buildModelConfig_def)

theorem buildModelConfig_no_backup_witness:
  "backupModel \<lparr> model = ''google/gemini-2.5-flash'', temperature = 1, maxTokens = 12800,
       maxRetries = 3, provider = None, jsonMode = False, backupModel = None \<rparr> = None \<and>
   buildModelConfig
     \<lparr> model = ''google/gemini-2.5-flash'', temperature = 1, maxTokens = 12800,
       maxRetries = 3, provider = None, jsonMode = False, backupModel = None \<rparr> None
   = \<lparr> model = ''google/gemini-2.5-flash'', temperature = 1, maxTokens = 12800,
       maxRetries = 3, provider = None, jsonMode = False, backupModel = None \<rparr>"
  using buildModelConfig_no_backup
    [of "\<lparr> model = ''google/gemini-2.5-flash'', temperature = 1, maxTokens = 12800,
          maxRetries = 3, provider = None, jsonMode = False, backupModel = None \<rparr>"]
  by simp

section \<open>The backoff delay\<close>

lemma backoff_delay_nat:
  "1 \<le> n \<Longrightarrow> (2::real) powi (int n - 1) = 2 ^ (n - 1)"
  by (simp add: power_int_def nat_diff_distrib')

lemma exponentialBackoff_eq:
  "exponentialBackoff n r =
     min (1000 * 2 powi (int n - 1)) 32000 +
     min (1000 * 2 powi (int n - 1)) 32000 * 0.25 * (r - 0.5)"
  unfolding exponentialBackoff_def Let_def by (rule refl)

text \<open>
  C3. For every attempt number n \<ge> 1 and every value r in [0, 1) of the random source,
  with d = min(1000 * 2^(n-1), 32000) milliseconds, the delay the code sleeps is
  d * (0.875 + 0.25 * r): it lies in [0.875 * d, 1.125 * d), a jitter of 12.5 percent
  either way. The claim's range [0.75 * d, 1.25 * d] is not what the code produces: for
  the first attempt no delay under 875 ms occurs.
\<close>

theorem exponentialBackoff_jitter_range:
  assumes "1 \<le> n" and "0 \<le> r" and "r < 1"
  shows "exponentialBackoff n r = min (1000 * 2 ^ (n - 1)) 32000 * (0.875 + 0.25 * r) \<and>
         0.875 * min (1000 * 2 ^ (n - 1)) 32000 \<le> exponentialBackoff n r \<and>
         exponentialBackoff n r < 1.125 * min (1000 * 2 ^ (n - 1)) 32000"
proof -
  define d :: real where "d = min (1000 * 2 ^ (n - 1)) 32000"
  have dpos: "0 < d" unfolding d_def by (simp only: min_less_iff_conj) simp
  have "exponentialBackoff n r = d + d * 0.25 * (r - 0.5)"
    unfolding exponentialBackoff_eq backoff_delay_nat [OF assms(1)] d_def by (rule refl)
  also have "\<dots> = d * (0.875 + 0.25 * r)" by (simp only: algebra_simps) simp
  finally have eq: "exponentialBackoff n r = d * (0.875 + 0.25 * r)" .
  have "d * 0.875 \<le> d * (0.875 + 0.25 * r)"
    using dpos assms(2) by (intro mult_left_mono) auto
  then have lo: "0.875 * d \<le> d * (0.875 + 0.25 * r)" by (simp only: mult.commute)
  have "d * (0.875 + 0.25 * r) < d * 1.125"
    using dpos assms(3) by (intro mult_strict_left_mono) auto
  then have hi: "d * (0.875 + 0.25 * r) < 1.125 * d" by (simp only: mult.commute)
  show ?thesis using eq lo hi unfolding d_def by simp
qed

theorem exponentialBackoff_jitter_range_witness:
  "(1::nat) \<le> 1 \<and> (0::real) \<le> 0 \<and> (0::real) < 1 \<and> exponentialBackoff 1 0 = 875 \<and>
   \<not> exponentialBackoff 1 0 \<le> 750"
  using exponentialBackoff_jitter_range [of 1 0] by simp

section \<open>The event a tool call starts with\<close>

text \<open>
  C5. For a tool call whose tool is found and whose before-hook returns rewritten
  arguments, with a streaming callback present: the first event the call emits is
  \<^verbatim>\<open>tool_start\<close> with the arguments of the model's tool call as they were before the
  rewrite; every later event of the call is the \<^verbatim>\<open>tool_complete\<close> event, which carries the
  rewritten arguments, the ones the tool was invoked with.
\<close>

theorem tool_start_carries_original_args:
  assumes "find (\<lambda>t. tool_name t = tc_name c) agentTools = Some t"
    and "callBeforeHook p \<lparr> toolName = tc_name c, toolInput = tc_args c, toolOutput = None,
                            messages = currentMessages l \<rparr> = Inr (Some r)"
    and "streamingCallback p"
  shows "\<exists>later.
           events (this (executeToolCall w p agentTools l (i, c))) =
             events (this l) @ tool_start (tc_name c) (tc_args c) (tc_id c) # later \<and>
           (\<forall>ev \<in> set later.
              \<exists>out. invoke t (before_toolInput r) = Inr out \<and>
                    ev = tool_complete (tc_id c) (before_toolInput r) (tc_name c) out)"
  using assms
  by (cases "invoke t (before_toolInput r)")
     (auto simp: executeToolCall_def emit_def Let_def split: sum.splits)

theorem tool_start_carries_original_args_witness:
  "find (\<lambda>t. tool_name t = tc_name echoCall) [echoTool] = Some echoTool \<and>
   streamingCallback (paramsWith ''hello'' geminiFlash [echoCustom] (Some rewriteHook) None) \<and>
   events (this (executeToolCall (answeringWorld ''done'')
                   (paramsWith ''hello'' geminiFlash [echoCustom] (Some rewriteHook) None)
                   [echoTool] (loopStart [echoCall]) (0, echoCall))) =
     [tool_start ''echo'' (JObj [(''q'', JStr ''original'')]) ''call_1'',
      tool_complete ''call_1'' (JObj [(''q'', JStr ''rewritten'')]) ''echo''
        (JObj [(''q'', JStr ''rewritten'')])]"
proof -
  let ?p = "paramsWith ''hello'' geminiFlash [echoCustom] (Some rewriteHook) None"
  have h1: "find (\<lambda>t. tool_name t = tc_name echoCall) [echoTool] = Some echoTool"
    by (simp add: echoCall_def echoTool_def)
  have h2: "callBeforeHook ?p \<lparr> toolName = tc_name echoCall, toolInput = tc_args echoCall,
                toolOutput = None, messages = currentMessages (loopStart [echoCall]) \<rparr>
            = Inr (Some \<lparr> before_messages = Some (currentMessages (loopStart [echoCall])),
                           before_toolInput = JObj [(''q'', JStr ''rewritten'')] \<rparr>)"
    by (simp add: callBeforeHook_def paramsWith_def rewriteHook_def)
  have h3: "streamingCallback ?p" by (simp add: paramsWith_def)
  have ev: "events (this (executeToolCall (answeringWorld ''done'') ?p [echoTool]
                             (loopStart [echoCall]) (0, echoCall))) =
     [tool_start ''echo'' (JObj [(''q'', JStr ''original'')]) ''call_1'',
      tool_complete ''call_1'' (JObj [(''q'', JStr ''rewritten'')]) ''echo''
        (JObj [(''q'', JStr ''rewritten'')])]"
    by code_simp
  show ?thesis
    using tool_start_carries_original_args [OF h1 h2 h3, of "answeringWorld ''done''" 0] h1 h3 ev
    by blast
qed


section \<open>Whole-model fallback\<close>

lemma executeWithModel_no_backup_runs:
  assumes "backupModel cfg = None"
  shows "modelRuns (fst (executeWithModel w p cfg s)) = modelRuns s @ [cfg]"
proof -
  let ?s0 = "s\<lparr>modelRuns := modelRuns s @ [cfg]\<rparr>"
  have agent: "modelRuns (fst (executeAgent w p cfg ts ?s0)) = modelRuns s @ [cfg]" for ts
  proof -
    obtain s1 res where t: "executeAgentTry w p cfg ts ?s0 = (s1, res)" by force
    have "modelRuns s1 = modelRuns ?s0" using t by (rule modelRuns_executeAgentTry)
    then show ?thesis
      using t assms by (subst executeAgent.simps) (simp split: sum.splits)
  qed
  show ?thesis
    by (subst executeWithModel.simps) (simp add: Let_def agent split: sum.splits)
qed

lemma executeWithModel_runs:
  "modelRuns (fst (executeWithModel w p cfg s)) = modelRuns s @ [cfg] \<or>
   (\<exists>b. backupModel cfg = Some b \<and>
        modelRuns (fst (executeWithModel w p cfg s)) =
          modelRuns s @ [cfg, buildModelConfig cfg (Some b)])"
proof -
  let ?s0 = "s\<lparr>modelRuns := modelRuns s @ [cfg]\<rparr>"
  have agent: "modelRuns (fst (executeAgent w p cfg ts ?s0)) = modelRuns s @ [cfg] \<or>
     (\<exists>b. backupModel cfg = Some b \<and>
        modelRuns (fst (executeAgent w p cfg ts ?s0)) =
          modelRuns s @ [cfg, buildModelConfig cfg (Some b)])" for ts
  proof -
    obtain s1 res where t: "executeAgentTry w p cfg ts ?s0 = (s1, res)" by force
    have s1: "modelRuns s1 = modelRuns s @ [cfg]"
      using modelRuns_executeAgentTry [OF t] by simp
    show ?thesis
    proof (cases res)
      case (Inr r)
      with t s1 show ?thesis by (subst executeAgent.simps) simp
    next
      case (Inl c)
      show ?thesis
      proof (cases "backupModel cfg")
        case None
        with t s1 Inl show ?thesis by (subst executeAgent.simps) simp
      next
        case (Some b)
        have nb: "backupModel (buildModelConfig cfg (Some b)) = None"
          by (simp add: buildModelConfig_def)
        have "executeAgent w p cfg ts ?s0 =
                executeWithModel w p (buildModelConfig cfg (Some b))
                  (emit p (fallbackEvent cfg b (fst c)) s1)"
          using t Inl Some by (subst executeAgent.simps) simp
        then have "modelRuns (fst (executeAgent w p cfg ts ?s0)) =
                     modelRuns s @ [cfg, buildModelConfig cfg (Some b)]"
          using executeWithModel_no_backup_runs [OF nb, of w p "emit p (fallbackEvent cfg b (fst c)) s1"] s1
          by simp
        with Some show ?thesis by simp
      qed
    qed
  qed
  show ?thesis
  proof (cases "initializeModel p cfg")
    case (Inl e)
    then show ?thesis by (subst executeWithModel.simps) (simp add: Let_def)
  next
    case (Inr u)
    show ?thesis
    proof (cases "initializeTools w p")
      case (Inl e)
      with Inr show ?thesis by (subst executeWithModel.simps) (simp add: Let_def)
    next
      case (Inr ts)
      have "executeWithModel w p cfg s = executeAgent w p cfg ts ?s0"
        using \<open>initializeModel p cfg = Inr u\<close> Inr
        by (subst executeWithModel.simps) (simp add: Let_def)
      with agent [of ts] show ?thesis by simp
    qed
  qed
qed

text \<open>
  C7. Fallback chains are one level deep. The backup-config type has no \<^verbatim>\<open>backupModel\<close>
  field; in every run of the agent action \<^verbatim>\<open>executeWithModel\<close> is entered with the
  caller's config and at most once more, and that second entry is with the config derived
  from the caller's backup, whose \<^verbatim>\<open>backupModel\<close> is unset.
\<close>

theorem fallback_one_level:
  "\<exists>runs. modelRuns (fst (performAction w p s)) = modelRuns s @ params_model p # runs \<and>
          length runs \<le> 1 \<and>
          (\<forall>c \<in> set runs.
             backupModel c = None \<and>
             (\<exists>b. backupModel (params_model p) = Some b \<and>
                  c = buildModelConfig (params_model p) (Some b)))"
proof -
  have eq: "fst (performAction w p s) = fst (executeWithModel w p (params_model p) s)"
    by (simp add: performAction_def split: prod.splits sum.splits)
  from executeWithModel_runs [of w p "params_model p" s] show ?thesis
  proof
    assume "modelRuns (fst (executeWithModel w p (params_model p) s)) = modelRuns s @ [params_model p]"
    with eq show ?thesis by (intro exI [of _ "[]"]) simp
  next
    assume "\<exists>b. backupModel (params_model p) = Some b \<and>
        modelRuns (fst (executeWithModel w p (params_model p) s)) =
          modelRuns s @ [params_model p, buildModelConfig (params_model p) (Some b)]"
    then obtain b where b: "backupModel (params_model p) = Some b"
      and r: "modelRuns (fst (executeWithModel w p (params_model p) s)) =
          modelRuns s @ [params_model p, buildModelConfig (params_model p) (Some b)]" by blast
    show ?thesis
      using eq b r
      by (intro exI [of _ "[buildModelConfig (params_model p) (Some b)]"])
         (simp add: buildModelConfig_def)
  qed
qed

theorem fallback_one_level_witness:
  "modelRuns (fst (performAction (failingWorld ''overloaded'')
                     (paramsWith ''hello'' geminiWithBackup [] None None) initialState)) =
     [geminiWithBackup,
      \<lparr> model = ''openai/gpt-5-mini'', temperature = 1, maxTokens = 12800,
        maxRetries = 3, provider = None, jsonMode = False, backupModel = None \<rparr>] \<and>
   llmCalls (fst (performAction (failingWorld ''overloaded'')
                     (paramsWith ''hello'' geminiWithBackup [] None None) initialState)) = 6"
proof -
  have ev: "modelRuns (fst (performAction (failingWorld ''overloaded'')
                     (paramsWith ''hello'' geminiWithBackup [] None None) initialState)) =
     [geminiWithBackup,
      \<lparr> model = ''openai/gpt-5-mini'', temperature = 1, maxTokens = 12800,
        maxRetries = 3, provider = None, jsonMode = False, backupModel = None \<rparr>]"
    by code_simp
  have ev2: "llmCalls (fst (performAction (failingWorld ''overloaded'')
                     (paramsWith ''hello'' geminiWithBackup [] None None) initialState)) = 6"
    by code_simp
  show ?thesis
    using fallback_one_level [of "failingWorld ''overloaded''"
            "paramsWith ''hello'' geminiWithBackup [] None None" initialState] ev ev2
    by blast
qed

section \<open>A plain answer without tools\<close>

lemma invokeWithRetry_first_answer:
  assumes "llm_invoke w cfg (llmCalls s) ms = Inr r"
  shows "invokeWithRetry w p cfg ms a k s = (s\<lparr>llmCalls := Suc (llmCalls s)\<rparr>, Inr r)"
  using assms by (cases k) (simp_all add: Let_def)

lemma reducer_first_message:
  "messagesStateReducer s [] [HumanMessage c] =
     (s\<lparr>nextId := Suc (nextId s)\<rparr>, [(HumanMessage c)\<lparr>msg_id := Some (Generated (nextId s))\<rparr>])"
  by (simp add: messagesStateReducer_def HumanMessage_def)

lemma reducer_append_answer:
  assumes "msg_id h = Some (Generated k)" and "k < nextId s"
  shows "\<exists>s1 a. messagesStateReducer s [h] [messageOfResponse r] = (s1, [h, a]) \<and>
           llmCalls s1 = llmCalls s \<and> msg_type a = TypeAI \<and>
           content a = response_content r \<and> finishReason a = response_finishReason r \<and>
           tool_calls a = response_tool_calls r"
proof (cases "response_id r")
  case None
  then show ?thesis using assms
    by (simp add: messagesStateReducer_def messageOfResponse_def)
next
  case (Some x)
  then show ?thesis using assms
    by (simp add: messagesStateReducer_def messageOfResponse_def)
qed

lemma extractToolCalls_question_answer:
  assumes "msg_type h = TypeHuman" and "msg_type a = TypeAI"
  shows "extractToolCalls w [h, a] m acc = acc"
  using assms by simp

lemma lastAIMessage_question_answer:
  assumes "msg_type h = TypeHuman" and "msg_type a = TypeAI"
  shows "lastAIMessage [h, a] = Some a"
  using assms by (simp add: lastAIMessage_def)

text \<open>
  C4, as the code has it. With an empty tool set, no images, a recursion limit of at least
  2, a model that initialises and answers on its first invocation, no blocking finish
  reason and no formatting error: exactly one model invocation occurs, \<^verbatim>\<open>toolCalls\<close> is
  empty, \<^verbatim>\<open>success\<close> is true, and \<^verbatim>\<open>iterations\<close> is 2: the number of messages of the final
  history, the human message and the model's answer.
\<close>

theorem plain_answer_without_tools:
  assumes init: "initializeModel p (params_model p) = Inr ()"
    and reg: "registerDefaults w = None"
    and notools: "tools p = []" "customTools p = []"
    and noimages: "images p = []"
    and limit: "2 \<le> maxIterations p"
    and answer: "\<forall>ms. llm_invoke w (params_model p) (llmCalls s) ms = Inr r"
    and reason: "response_finishReason r \<noteq> Some ''SAFETY_BLOCKED''"
                "response_finishReason r \<noteq> Some ''MAX_TOKENS''"
    and format: "\<not> truthy (formatted_error
                   (formatFinalResponse w (response_content r) (model (params_model p))
                      (jsonMode (params_model p))))"
  shows "\<exists>s1 res. performAction w p s = (s1, Inr res) \<and>
           llmCalls s1 = llmCalls s + 1 \<and>
           toolCalls res = [] \<and> iterations res = 2 \<and> success res \<and> error res = [] \<and>
           response res = formatted_response
              (formatFinalResponse w (response_content r) (model (params_model p))
                 (jsonMode (params_model p)))"
proof -
  let ?cfg = "params_model p"
  let ?s0 = "s\<lparr>modelRuns := modelRuns s @ [?cfg]\<rparr>"
  let ?h = "(HumanMessage (Text (message p)))\<lparr>msg_id := Some (Generated (nextId s))\<rparr>"
  let ?s1 = "?s0\<lparr>nextId := Suc (nextId s)\<rparr>"
  let ?s2 = "?s1\<lparr>llmCalls := Suc (llmCalls s)\<rparr>"
  obtain n where n: "maxIterations p = Suc (Suc n)"
    using limit by (metis Suc_le_D numeral_2_eq_2 Suc_le_mono)
  have tools: "initializeTools w p = Inr []"
    by (simp add: initializeTools_def reg notools List.map_filter_simps)
  have human: "buildHumanMessage w (message p) (images p) = Inr (HumanMessage (Text (message p)))"
    by (simp add: buildHumanMessage_def noimages)
  have first: "messagesStateReducer ?s0 [] [HumanMessage (Text (message p))] = (?s1, [?h])"
    using reducer_first_message [of ?s0] by simp
  have node: "agentNode w p ?cfg ?s1 [?h] = (?s2, Inr [messageOfResponse r])"
    using answer by (simp add: agentNode_def Let_def invokeWithRetry_first_answer)
  obtain s3 a where red: "messagesStateReducer ?s2 [?h] [messageOfResponse r] = (s3, [?h, a])"
    and s3: "llmCalls s3 = llmCalls ?s2" and a: "msg_type a = TypeAI"
      "content a = response_content r" "finishReason a = response_finishReason r"
    using reducer_append_answer [of ?h "nextId s" ?s2 r] by auto
  have step: "agentStep w p ?cfg ?s1 [?h] = (s3, Inr [?h, a])"
    by (simp add: agentStep_def node red)
  have run: "runGraph w p ?cfg [] (maxIterations p) AgentNode ?s1 [?h] = (s3, Inr [?h, a])"
    by (simp add: n step)
  have h: "msg_type ?h = TypeHuman" by (simp add: HumanMessage_def)
  have fin: "finishExecution w ?cfg [?h, a] =
      Inr \<lparr> response = formatted_response (formatFinalResponse w (response_content r) (model ?cfg) (jsonMode ?cfg)),
            toolCalls = [], iterations = 2, error = [], success = True \<rparr>"
    using reason format
    by (simp add: finishExecution_def Let_def lastAIMessage_question_answer [OF h a(1)]
          extractToolCalls_question_answer [OF h a(1)] a)
  have tried: "executeAgentTry w p ?cfg [] ?s0 =
      (s3, Inr \<lparr> response = formatted_response (formatFinalResponse w (response_content r) (model ?cfg) (jsonMode ?cfg)),
            toolCalls = [], iterations = 2, error = [], success = True \<rparr>)"
    by (simp add: executeAgentTry_def human graph_invoke_def first run fin)
  have "executeWithModel w p ?cfg s =
      (s3, Inr \<lparr> response = formatted_response (formatFinalResponse w (response_content r) (model ?cfg) (jsonMode ?cfg)),
            toolCalls = [], iterations = 2, error = [], success = True \<rparr>)"
    by (subst executeWithModel.simps, simp add: Let_def init tools, subst executeAgent.simps)
       (simp add: tried)
  then show ?thesis using s3 by (simp add: performAction_def)
qed

lemma twoPlusTwo_result:
  "snd (performAction (answeringWorld ''4'') twoPlusTwo initialState) =
     Inr \<lparr> response = ''4'', toolCalls = [], iterations = 2, error = [], success = True \<rparr>"
  by code_simp

theorem plain_answer_without_tools_witness:
  "initializeModel twoPlusTwo (params_model twoPlusTwo) = Inr () \<and>
   tools twoPlusTwo = [] \<and> customTools twoPlusTwo = [] \<and> images twoPlusTwo = [] \<and>
   2 \<le> maxIterations twoPlusTwo \<and>
   llm_invoke (answeringWorld ''4'') (params_model twoPlusTwo) (llmCalls initialState) [] =
     Inr (textResponse ''4'') \<and>
   snd (performAction (answeringWorld ''4'') twoPlusTwo initialState) =
     Inr \<lparr> response = ''4'', toolCalls = [], iterations = 2, error = [], success = True \<rparr> \<and>
   llmCalls (fst (performAction (answeringWorld ''4'') twoPlusTwo initialState)) = 1"
proof -
  have h1: "initializeModel twoPlusTwo (params_model twoPlusTwo) = Inr ()" by code_simp
  have h2: "registerDefaults (answeringWorld ''4'') = None"
    by (simp add: answeringWorld_def worldWith_def)
  have h3: "tools twoPlusTwo = []" "customTools twoPlusTwo = []" "images twoPlusTwo = []"
    by (simp_all add: twoPlusTwo_def paramsWith_def)
  have h4: "2 \<le> maxIterations twoPlusTwo" by (simp add: twoPlusTwo_def paramsWith_def)
  have h5: "\<forall>ms. llm_invoke (answeringWorld ''4'') (params_model twoPlusTwo)
                   (llmCalls initialState) ms = Inr (textResponse ''4'')"
    by (simp add: answeringWorld_def worldWith_def)
  have h6: "response_finishReason (textResponse ''4'') \<noteq> Some ''SAFETY_BLOCKED''"
           "response_finishReason (textResponse ''4'') \<noteq> Some ''MAX_TOKENS''"
    by (simp_all add: textResponse_def)
  have h7: "\<not> truthy (formatted_error
                   (formatFinalResponse (answeringWorld ''4'') (response_content (textResponse ''4''))
                      (model (params_model twoPlusTwo)) (jsonMode (params_model twoPlusTwo))))"
    by (simp add: answeringWorld_def worldWith_def plainFormat_def truthy_def)
  have calls: "llmCalls initialState = 0" by (simp add: initialState_def)
  from plain_answer_without_tools [OF h1 h2 h3 h4 h5 h6 h7]
  obtain s1 res where r: "performAction (answeringWorld ''4'') twoPlusTwo initialState = (s1, Inr res)"
    and c: "llmCalls s1 = llmCalls initialState + 1" by blast
  have "llmCalls (fst (performAction (answeringWorld ''4'') twoPlusTwo initialState)) = 1"
    using r c calls by simp
  then show ?thesis using h1 h3 h4 h5 twoPlusTwo_result by simp
qed

text \<open>
  The claim's \<^verbatim>\<open>iterations = 1\<close> fails on its own scenario: message "2+2?", no tools,
  \<^verbatim>\<open>maxIterations = 10\<close>, and a model that answers "4" at once.
\<close>

theorem plain_answer_iterations_counterexample:
  "\<not> (\<exists>res. snd (performAction (answeringWorld ''4'') twoPlusTwo initialState) = Inr res \<and>
              toolCalls res = [] \<and> iterations res = 1 \<and> success res)"
  by (simp add: twoPlusTwo_result)

section \<open>No error crosses the agent action\<close>


























subsection \<open>The result for each kind of error\<close>

















section \<open>A call of a tool that is not registered\<close>

lemma missing_tool_update:
  "executeToolsWithHooks (callingWorld [missingCall])
       (paramsWith ''hello'' geminiFlash [echoCustom] None None)
       afterAgent [humanAsked, aiCalls [missingCall]] [echoTool] =
     Inr (afterAgent, aiCalls [missingCall], [humanAsked, aiCalls [missingCall]])"
  by code_simp

lemma missing_tool_step:
  "toolsStep (callingWorld [missingCall])
       (paramsWith ''hello'' geminiFlash [echoCustom] None None)
       [echoTool] afterAgent [humanAsked, aiCalls [missingCall]] =
     (afterAgent, Inr [humanAsked, aiCalls [missingCall]])"
  by code_simp

lemma missing_tool_run:
  "snd (performAction (callingWorld [missingCall])
          (paramsWith ''hello'' geminiFlash [echoCustom] None None) initialState) =
     Inr \<lparr> response = ''done'', toolCalls = [], iterations = 3, error = [], success = True \<rparr>"
  by code_simp

lemma missing_tool_run_with_echo:
  "snd (performAction (callingWorld [missingCall, echoCall])
          (paramsWith ''hello'' geminiFlash [echoCustom] None None) initialState) =
     Inr \<lparr> response = ''done'',
           toolCalls =
             [\<lparr> call_tool = ''echo'', call_input = JObj [(''q'', JStr ''original'')],
                 call_output = JObj [(''q'', JStr ''original'')] \<rparr>],
           iterations = 4, error = [], success = True \<rparr>"
  by code_simp

lemma throwing_tool_run:
  "snd (performAction (callingWorld [missingCall])
          (paramsWith ''hello'' geminiFlash [failCustom] None None) initialState) =
     Inr \<lparr> response = ''done'',
           toolCalls =
             [\<lparr> call_tool = ''lookup'', call_input = JObj [],
                 call_output = JStr ''Error: boom'' \<rparr>],
           iterations = 4, error = [], success = True \<rparr>"
  by code_simp

text \<open>
  What the accountant does with the message of a missing tool when it does reach the
  history: with an after-hook that appends a message, and the calls of a missing and of a
  registered tool, the two lengths the node compares agree, the node returns
  \<^verbatim>\<open>toolMessages\<close>, and the missing tool's call is listed in \<^verbatim>\<open>toolCalls\<close> with the error
  text as its output.
\<close>

lemma missing_tool_run_with_note:
  "snd (performAction (callingWorld [missingCall, echoCall])
          (paramsWith ''hello'' geminiFlash [echoCustom] None (Some noteHook)) initialState) =
     Inr \<lparr> response = ''done'',
           toolCalls =
             [\<lparr> call_tool = ''lookup'', call_input = JObj [],
                 call_output = JStr ''Error: Tool lookup not found'' \<rparr>,
              \<lparr> call_tool = ''echo'', call_input = JObj [(''q'', JStr ''original'')],
                 call_output = JObj [(''q'', JStr ''original'')] \<rparr>],
           iterations = 5, error = [], success = True \<rparr>"
  by code_simp

text \<open>
  C1, what the code does. The model asks for the single call \<^verbatim>\<open>call_0\<close> of the tool
  \<^verbatim>\<open>lookup\<close>; the registry holds only \<^verbatim>\<open>echo\<close>; there are no hooks. The not-found branch
  pushes its message to \<^verbatim>\<open>toolMessages\<close> and not to \<^verbatim>\<open>currentMessages\<close>, so the two lengths
  the node compares differ and the node returns \<^verbatim>\<open>currentMessages\<close>: the update is the
  unchanged history, the history after the tools node has no tool-result message, and the
  run ends with three messages and an empty \<^verbatim>\<open>toolCalls\<close>. With a second call, of the
  registered tool, only that call's result reaches the history. A registered tool that
  throws goes through the catch branch, which pushes to both lists: its error message
  reaches the history and the call is listed in \<^verbatim>\<open>toolCalls\<close>.
\<close>

theorem missing_tool_message_dropped:
  "executeToolsWithHooks (callingWorld [missingCall])
       (paramsWith ''hello'' geminiFlash [echoCustom] None None)
       afterAgent [humanAsked, aiCalls [missingCall]] [echoTool] =
     Inr (afterAgent, aiCalls [missingCall], [humanAsked, aiCalls [missingCall]]) \<and>
   toolsStep (callingWorld [missingCall])
       (paramsWith ''hello'' geminiFlash [echoCustom] None None)
       [echoTool] afterAgent [humanAsked, aiCalls [missingCall]] =
     (afterAgent, Inr [humanAsked, aiCalls [missingCall]]) \<and>
   snd (performAction (callingWorld [missingCall])
          (paramsWith ''hello'' geminiFlash [echoCustom] None None) initialState) =
     Inr \<lparr> response = ''done'', toolCalls = [], iterations = 3, error = [], success = True \<rparr> \<and>
   snd (performAction (callingWorld [missingCall, echoCall])
          (paramsWith ''hello'' geminiFlash [echoCustom] None None) initialState) =
     Inr \<lparr> response = ''done'',
           toolCalls =
             [\<lparr> call_tool = ''echo'', call_input = JObj [(''q'', JStr ''original'')],
                 call_output = JObj [(''q'', JStr ''original'')] \<rparr>],
           iterations = 4, error = [], success = True \<rparr> \<and>
   snd (performAction (callingWorld [missingCall])
          (paramsWith ''hello'' geminiFlash [failCustom] None None) initialState) =
     Inr \<lparr> response = ''done'',
           toolCalls =
             [\<lparr> call_tool = ''lookup'', call_input = JObj [],
                 call_output = JStr ''Error: boom'' \<rparr>],
           iterations = 4, error = [], success = True \<rparr>"
  using missing_tool_update missing_tool_step missing_tool_run missing_tool_run_with_echo
    throwing_tool_run
  by (intro conjI)

section \<open>A hook asks to stop\<close>

lemma currentMessages_applyBeforeResult_this [simp]:
  "currentMessages (applyBeforeResult i hb (l\<lparr>this := x\<rparr>)) =
     currentMessages (applyBeforeResult i hb l)"
  by (simp add: applyBeforeResult_def Let_def split: option.splits)



lemma stop_emit [simp]: "shouldStopAfterTools (emit p ev s) = shouldStopAfterTools s"
  by (simp add: emit_def)














section \<open>Tool outputs through the history\<close>

subsection \<open>A batch without hooks whose tools all return\<close>





subsection \<open>The accountant on such a history\<close>











end
